theory Spec2Isabelle
  imports Complex_Main "HOL-Library.AList"
begin

section \<open>Data model\<close>

text \<open>
  The service \<^verbatim>\<open>DifferentialPrivacy\<close> of
  \<^verbatim>\<open>backend/app/services/differential_privacy.py\<close> and its endpoints in
  \<^verbatim>\<open>backend/app/api/dp.py\<close>.

  Python floats are idealised as real numbers (no rounding, no overflow). The one non-finite
  float that the code can produce on ordinary input, NaN (a missing cell of a column, the
  minimum of an empty column, \<^verbatim>\<open>0/0\<close> in numpy), is kept: a float that may be NaN is a
  \<open>real option\<close>, with \<open>None\<close> for NaN.
\<close>

type_synonym fl = "real option"

datatype error =
    ValueError string
  | KeyError string
  | TypeError string
  | ZeroDivisionError

text \<open>
  The instance attributes set by \<^verbatim>\<open>__init__\<close>. The dictionary \<^verbatim>\<open>privacy_levels\<close> is the
  same for every instance and is the constant \<open>privacy_levels\<close> below.
\<close>

record DifferentialPrivacy =
  epsilon :: real
  delta :: real
  privacy_budget_spent :: real

definition init :: "real \<Rightarrow> real \<Rightarrow> DifferentialPrivacy" where
  "init eps d = \<lparr>epsilon = eps, delta = d, privacy_budget_spent = 0\<rparr>"

section \<open>Privacy levels\<close>

text \<open>
  \<^verbatim>\<open>self.privacy_levels\<close>, in insertion order: the level, and the bounds \<^verbatim>\<open>min_eps\<close>,
  \<^verbatim>\<open>max_eps\<close> of its range. The third component of each entry, a description for the user,
  is read by no function modelled here and is left out.
\<close>

definition privacy_levels :: "(string \<times> real \<times> real) list" where
  "privacy_levels =
     [(''very_high'', 1/10, 1/2),
      (''high'', 1/2, 1),
      (''medium'', 1, 2),
      (''low'', 2, 5),
      (''very_low'', 5, 10)]"

text \<open>
  \<^verbatim>\<open>for level, (min_eps, max_eps, _) in self.privacy_levels.items():
      if min_eps <= self.epsilon < max_eps: return level
  return "custom"\<close>
\<close>

fun first_level :: "real \<Rightarrow> (string \<times> real \<times> real) list \<Rightarrow> string" where
  "first_level eps [] = ''custom''"
| "first_level eps ((level, min_eps, max_eps) # rest) =
     (if min_eps \<le> eps \<and> eps < max_eps then level else first_level eps rest)"

definition get_privacy_level :: "DifferentialPrivacy \<Rightarrow> string" where
  "get_privacy_level self = first_level (epsilon self) privacy_levels"

text \<open>\<^verbatim>\<open>_get_privacy_level_for_epsilon\<close> (the leading underscore is not an Isabelle name).\<close>

definition get_privacy_level_for_epsilon :: "real \<Rightarrow> string" where
  "get_privacy_level_for_epsilon eps =
     (if eps < 1/2 then ''very_high''
      else if eps < 1 then ''high''
      else if eps < 2 then ''medium''
      else if eps < 5 then ''low''
      else ''very_low'')"

text \<open>The five buckets of the data model.\<close>

definition buckets :: "string list" where
  "buckets = map fst privacy_levels"

section \<open>Composition and the budget\<close>

text \<open>
  Floating-point operations of numpy whose result may be NaN. \<^verbatim>\<open>np.log\<close> of a negative
  number and \<^verbatim>\<open>np.sqrt\<close> of a negative number are NaN (with a warning, not an exception);
  \<^verbatim>\<open>np.log(0)\<close> is \<^verbatim>\<open>-inf\<close>, which the model does not represent and also maps to \<open>None\<close>.
\<close>

definition np_log :: "real \<Rightarrow> fl" where
  "np_log x = (if 0 < x then Some (ln x) else None)"

definition np_sqrt :: "real \<Rightarrow> fl" where
  "np_sqrt x = (if 0 \<le> x then Some (sqrt x) else None)"

text \<open>
  The four messages of \<^verbatim>\<open>_get_privacy_budget_recommendation\<close>, in the order of its branches.
  The texts are user-facing Turkish sentences; each is represented by a constructor.
\<close>

datatype budget_recommendation = BudgetPlenty | BudgetModerate | BudgetHigh | BudgetExhausted

definition get_privacy_budget_recommendation :: "real \<Rightarrow> budget_recommendation" where
  "get_privacy_budget_recommendation spent =
     (if spent < 1 then BudgetPlenty
      else if spent < 5 then BudgetModerate
      else if spent < 10 then BudgetHigh
      else BudgetExhausted)"

record privacy_loss_report =
  num_queries :: int
  base_epsilon :: real
  sequential_composition :: real
  advanced_composition :: fl
  pl_privacy_budget_spent :: real
  privacy_remaining :: real
  pl_recommendation :: budget_recommendation

text \<open>
  \<^verbatim>\<open>np.sqrt(2 * k * np.log(1 / self.delta)) * self.epsilon
     + k * self.epsilon * (np.exp(self.epsilon) - 1)\<close>
  The division \<^verbatim>\<open>1 / self.delta\<close> is a division of Python floats and is guarded by the caller
  below.
\<close>

definition advanced_epsilon :: "real \<Rightarrow> real \<Rightarrow> int \<Rightarrow> fl" where
  "advanced_epsilon eps d k =
     Option.bind (np_log (1 / d)) (\<lambda>l.
     Option.bind (np_sqrt (2 * real_of_int k * l)) (\<lambda>s.
       Some (s * eps + real_of_int k * eps * (exp eps - 1))))"

text \<open>
  \<^verbatim>\<open>calculate_privacy_loss(self, num_queries)\<close>. The method assigns to no attribute; the instance
  is returned beside the result so that this can be stated. \<^verbatim>\<open>1 / self.delta\<close> raises
  \<^verbatim>\<open>ZeroDivisionError\<close> when \<^verbatim>\<open>delta\<close> is zero.
\<close>

definition calculate_privacy_loss ::
  "DifferentialPrivacy \<Rightarrow> int \<Rightarrow> (error + privacy_loss_report) \<times> DifferentialPrivacy" where
  "calculate_privacy_loss self n =
     (if delta self = 0 then (Inl ZeroDivisionError, self)
      else
        (Inr \<lparr>num_queries = n,
              base_epsilon = epsilon self,
              sequential_composition = epsilon self * real_of_int n,
              advanced_composition = advanced_epsilon (epsilon self) (delta self) n,
              pl_privacy_budget_spent = privacy_budget_spent self,
              privacy_remaining = max 0 (10 - privacy_budget_spent self),
              pl_recommendation = get_privacy_budget_recommendation (privacy_budget_spent self)\<rparr>,
         self))"

definition reset_privacy_budget :: "DifferentialPrivacy \<Rightarrow> DifferentialPrivacy" where
  "reset_privacy_budget self = self\<lparr>privacy_budget_spent := 0\<rparr>"

section \<open>Data frames\<close>

text \<open>
  A pandas data frame is its columns, in order, each a name and a series. A series is numeric
  (one of the dtypes the noise loop accepts, or another numeric dtype such as \<^verbatim>\<open>int16\<close>) or
  not numeric (\<^verbatim>\<open>object\<close>, with the cells as strings). A cell \<open>None\<close> is a missing value (NaN).
  In every frame that \<^verbatim>\<open>pd.read_csv\<close> returns the column names are distinct and all columns
  have the number of rows of the frame (\<open>wf_dataframe\<close>); a cell is read by its row number
  only in such frames.
\<close>

datatype dtype = Int64 | Float64 | Int32 | Float32 | OtherNumber

datatype series = Numeric dtype "fl list" | Object "string option list"

type_synonym dataframe = "(string \<times> series) list"

fun len_series :: "series \<Rightarrow> nat" where
  "len_series (Numeric t vs) = length vs"
| "len_series (Object vs) = length vs"

text \<open>\<^verbatim>\<open>len(df)\<close>: the number of rows.\<close>

fun len_df :: "dataframe \<Rightarrow> nat" where
  "len_df [] = 0"
| "len_df ((name, s) # rest) = len_series s"

definition df_columns :: "dataframe \<Rightarrow> string list" where
  "df_columns df = map fst df"

definition wf_dataframe :: "dataframe \<Rightarrow> bool" where
  "wf_dataframe df \<longleftrightarrow>
     distinct (df_columns df) \<and> list_all (\<lambda>(name, s). len_series s = len_df df) df"

text \<open>\<^verbatim>\<open>df_dp[column] = noisy_values\<close>: the column keeps its place and becomes a float array.\<close>

fun assign_column :: "dataframe \<Rightarrow> string \<Rightarrow> series \<Rightarrow> dataframe" where
  "assign_column [] column s = [(column, s)]"
| "assign_column ((name, old) # rest) column s =
     (if name = column then (name, s) # rest else (name, old) # assign_column rest column s)"

section \<open>k-anonymity\<close>

text \<open>A cell as a grouping key: a number or a string.\<close>

datatype cell = Num real | Str string

fun cells :: "series \<Rightarrow> cell option list" where
  "cells (Numeric t vs) = map (map_option Num) vs"
| "cells (Object vs) = map (map_option Str) vs"

text \<open>
  \<^verbatim>\<open>df.groupby(quasi_identifiers).size()\<close>, for a list of strings as keys. pandas reads the
  list in one of two ways.
  \<^item> When the list is as long as the frame has rows and some key is not a column, the whole list
    is taken as one array of group labels, a label for each row: the row \<open>i\<close> is in the group of
    the string \<open>keys ! i\<close>, and nothing is raised.
  \<^item> Otherwise each key names a column, and pandas raises \<^verbatim>\<open>KeyError\<close> for the first key that
    is not a column. The key of a row is the tuple of its cells in the key columns; with the
    default \<^verbatim>\<open>dropna=True\<close> a row with a missing cell in a key column belongs to no group. With
    no key at all pandas raises \<^verbatim>\<open>ValueError\<close> if the frame has rows, and finds no group if it has
    none.
  The result maps every key that occurs to the number of rows that have it. pandas orders the
  groups by key; the order is not modelled (the groups are listed here by occurrence), and no
  function below depends on it.
\<close>

definition row_key :: "dataframe \<Rightarrow> string list \<Rightarrow> nat \<Rightarrow> cell option list" where
  "row_key df keys i = map (\<lambda>key. case map_of df key of Some s \<Rightarrow> cells s ! i | None \<Rightarrow> None) keys"

definition row_keys :: "dataframe \<Rightarrow> string list \<Rightarrow> cell list list" where
  "row_keys df keys =
     map (map the) (filter (\<lambda>key. None \<notin> set key) (map (row_key df keys) [0..<len_df df]))"

definition group_sizes :: "'a list \<Rightarrow> ('a \<times> nat) list" where
  "group_sizes ks = map (\<lambda>key. (key, count_list ks key)) (remdups ks)"

definition groupby_size :: "dataframe \<Rightarrow> string list \<Rightarrow> error + (cell list \<times> nat) list" where
  "groupby_size df keys =
     (if length keys = len_df df \<and> \<not> list_all (\<lambda>key. key \<in> set (df_columns df)) keys
      then Inr (group_sizes (map (\<lambda>label. [Str label]) keys))
      else case filter (\<lambda>key. key \<notin> set (df_columns df)) keys of
             missing # _ \<Rightarrow> Inl (KeyError missing)
           | [] \<Rightarrow>
               if keys = [] \<and> 0 < len_df df then Inl (ValueError ''No group keys passed!'')
               else Inr (group_sizes (row_keys df keys)))"

text \<open>
  The four messages of \<^verbatim>\<open>_get_k_anonymity_recommendation\<close>, in the order of its branches.
  Every comparison with NaN is false, so NaN reaches the last branch.
\<close>

datatype k_recommendation = KAnonymous | LowRisk | MediumRisk | HighRisk

definition get_k_anonymity_recommendation :: "fl \<Rightarrow> k_recommendation" where
  "get_k_anonymity_recommendation vulnerable_percentage =
     (case vulnerable_percentage of
        None \<Rightarrow> HighRisk
      | Some p \<Rightarrow>
          if p = 0 then KAnonymous
          else if p < 5 then LowRisk
          else if p < 20 then MediumRisk
          else HighRisk)"

record k_anonymity_report =
  k_value :: int
  total_records :: nat
  vulnerable_records :: nat
  vulnerable_percentage :: fl
  is_k_anonymous :: bool
  smallest_group_size :: nat
  average_group_size :: real
  ka_recommendation :: k_recommendation

text \<open>
  \<^verbatim>\<open>vulnerable_records / total_records\<close> divides a numpy integer (the result of
  \<^verbatim>\<open>Series.sum()\<close>) by a Python integer. numpy does not raise on a zero divisor: the quotient
  is NaN for \<^verbatim>\<open>0 / 0\<close> and infinite otherwise; both are \<open>None\<close> here.
\<close>

definition np_divide :: "real \<Rightarrow> real \<Rightarrow> fl" where
  "np_divide a b = (if b = 0 then None else Some (a / b))"

definition k_anonymity_check ::
  "DifferentialPrivacy \<Rightarrow> dataframe \<Rightarrow> string list \<Rightarrow> int
     \<Rightarrow> (error + k_anonymity_report) \<times> DifferentialPrivacy" where
  "k_anonymity_check self df quasi_identifiers k =
     (case groupby_size df quasi_identifiers of
        Inl e \<Rightarrow> (Inl e, self)
      | Inr groups \<Rightarrow>
          (let sizes = map snd groups;
               vulnerable_groups = filter (\<lambda>n. int n < k) sizes;
               total = len_df df;
               vulnerable = sum_list vulnerable_groups;
               percentage = map_option (\<lambda>q. q * 100) (np_divide (real vulnerable) (real total))
           in (Inr \<lparr>k_value = k,
                     total_records = total,
                     vulnerable_records = vulnerable,
                     vulnerable_percentage = percentage,
                     is_k_anonymous = (length vulnerable_groups = 0),
                     smallest_group_size = (if length groups > 0 then Min (set sizes) else 0),
                     average_group_size =
                       (if length groups > 0 then real (sum_list sizes) / real (length sizes) else 0),
                     ka_recommendation = get_k_anonymity_recommendation percentage\<rparr>,
               self)))"

section \<open>The noise pipeline\<close>

subsection \<open>The mechanisms of the library\<close>

text \<open>
  \<^verbatim>\<open>Laplace(epsilon, sensitivity)\<close> and \<^verbatim>\<open>Gaussian(epsilon, delta, sensitivity)\<close> are classes of
  the third-party library diffprivlib. The pipeline is modelled for any such library: a
  constructor that accepts its arguments or raises, and \<^verbatim>\<open>randomise\<close>, which returns a noisy
  value or raises. The randomness is a generator state of any type \<open>'g\<close>, read and returned by
  each draw.
\<close>

datatype mechanism = Laplace real fl | Gaussian real real fl

record 'g diffprivlib =
  construct :: "mechanism \<Rightarrow> error option"
  randomise :: "mechanism \<Rightarrow> 'g \<Rightarrow> fl \<Rightarrow> error + (fl \<times> 'g)"

subsection \<open>Column statistics of pandas and numpy\<close>

definition present :: "fl list \<Rightarrow> real list" where
  "present vs = map the (filter (\<lambda>v. v \<noteq> None) vs)"

text \<open>\<^verbatim>\<open>Series.min()\<close>, \<^verbatim>\<open>Series.max()\<close>, \<^verbatim>\<open>Series.mean()\<close> skip NaN and are NaN when nothing is left.\<close>

definition series_min :: "fl list \<Rightarrow> fl" where
  "series_min vs = (if present vs = [] then None else Some (Min (set (present vs))))"

definition series_max :: "fl list \<Rightarrow> fl" where
  "series_max vs = (if present vs = [] then None else Some (Max (set (present vs))))"

definition series_mean :: "fl list \<Rightarrow> fl" where
  "series_mean vs =
     (if present vs = [] then None else Some (sum_list (present vs) / real (length (present vs))))"

text \<open>\<^verbatim>\<open>ndarray.mean()\<close> is NaN for an empty array and for an array that holds a NaN.\<close>

definition array_mean :: "fl list \<Rightarrow> fl" where
  "array_mean vs =
     (if vs = [] \<or> None \<in> set vs then None else Some (sum_list (map the vs) / real (length vs)))"

text \<open>Arithmetic on floats that may be NaN: NaN in, NaN out.\<close>

definition fl_sub :: "fl \<Rightarrow> fl \<Rightarrow> fl" where
  "fl_sub a b = (case (a, b) of (Some x, Some y) \<Rightarrow> Some (x - y) | _ \<Rightarrow> None)"

text \<open>
  \<^verbatim>\<open>upper - lower\<close> on the bounds of a column. Bounds given by the caller are Python floats
  and are subtracted as such. Bounds taken from the column are numpy scalars of the dtype of
  the column: for \<^verbatim>\<open>int64\<close> and \<^verbatim>\<open>int32\<close> the difference wraps around at that width (with a
  warning, not an exception). The type of the bounds is \<open>None\<close> for Python floats and the dtype
  of the column otherwise.
\<close>

definition wrap_signed :: "nat \<Rightarrow> int \<Rightarrow> int" where
  "wrap_signed w x = (x + 2 ^ (w - 1)) mod 2 ^ w - 2 ^ (w - 1)"

definition scalar_sub :: "dtype option \<Rightarrow> fl \<Rightarrow> fl \<Rightarrow> fl" where
  "scalar_sub t upper lower =
     (case t of
        Some Int64 \<Rightarrow> map_option (\<lambda>d. real_of_int (wrap_signed 64 \<lfloor>d\<rfloor>)) (fl_sub upper lower)
      | Some Int32 \<Rightarrow> map_option (\<lambda>d. real_of_int (wrap_signed 32 \<lfloor>d\<rfloor>)) (fl_sub upper lower)
      | _ \<Rightarrow> fl_sub upper lower)"

text \<open>
  \<^verbatim>\<open>np.clip(a, lower, upper)\<close> is \<^verbatim>\<open>np.minimum(upper, np.maximum(a, lower))\<close>, with no check
  that \<^verbatim>\<open>lower <= upper\<close>.
\<close>

definition np_clip :: "fl \<Rightarrow> fl \<Rightarrow> fl \<Rightarrow> fl" where
  "np_clip lower upper a =
     (case (a, lower, upper) of
        (Some x, Some lo, Some hi) \<Rightarrow> Some (min hi (max x lo))
      | _ \<Rightarrow> None)"

subsection \<open>Noise on one column\<close>

text \<open>\<^verbatim>\<open>np.array([mech.randomise(float(val)) for val in values])\<close>\<close>

fun randomise_all ::
  "'g diffprivlib \<Rightarrow> mechanism \<Rightarrow> 'g \<Rightarrow> fl list \<Rightarrow> error + (fl list \<times> 'g)" where
  "randomise_all lib mech g [] = Inr ([], g)"
| "randomise_all lib mech g (val # vals) =
     (case randomise lib mech g val of
        Inl e \<Rightarrow> Inl e
      | Inr (y, g1) \<Rightarrow>
          (case randomise_all lib mech g1 vals of
             Inl e \<Rightarrow> Inl e
           | Inr (ys, g2) \<Rightarrow> Inr (y # ys, g2)))"

text \<open>
  \<^verbatim>\<open>_add_noise_to_column\<close>. The argument \<open>t\<close> is the type of the objects \<^verbatim>\<open>lower\<close> and
  \<^verbatim>\<open>upper\<close>, which decides how \<^verbatim>\<open>upper - lower\<close> is computed.
\<close>

definition add_noise_to_column ::
  "'g diffprivlib \<Rightarrow> DifferentialPrivacy \<Rightarrow> 'g \<Rightarrow> fl list \<Rightarrow> string \<Rightarrow> real \<Rightarrow> dtype option
     \<Rightarrow> fl \<Rightarrow> fl \<Rightarrow> error + (fl list \<times> 'g)" where
  "add_noise_to_column lib self g vals mechanism_name eps t lower upper =
     (let sensitivity = scalar_sub t upper lower in
      case (if mechanism_name = ''laplace'' then Inr (Laplace eps sensitivity)
            else if mechanism_name = ''gaussian'' then Inr (Gaussian eps (delta self) sensitivity)
            else Inl (ValueError (''Bilinmeyen mechanism: '' @ mechanism_name))) of
        Inl e \<Rightarrow> Inl e
      | Inr mech \<Rightarrow>
          (case construct lib mech of
             Some e \<Rightarrow> Inl e
           | None \<Rightarrow>
               (case randomise_all lib mech g vals of
                  Inl e \<Rightarrow> Inl e
                | Inr (noisy_values, g') \<Rightarrow> Inr (map (np_clip lower upper) noisy_values, g'))))"

subsection \<open>Noise on a data frame\<close>

record noise_statistic =
  original_mean :: fl
  noisy_mean :: fl
  noise_magnitude :: fl
  relative_error :: fl
  epsilon_used :: real
  stat_bounds :: "fl \<times> fl"

record dp_report =
  rep_epsilon :: real
  rep_delta :: real
  mechanism :: string
  privacy_level :: string
  columns_processed :: "string list"
  noise_statistics :: "(string \<times> noise_statistic) list"
  rep_privacy_budget_spent :: real

text \<open>
  \<^verbatim>\<open>columns = df.select_dtypes(include=[np.number]).columns.tolist()\<close> when no columns are
  given.
\<close>

definition numeric_columns :: "dataframe \<Rightarrow> string list" where
  "numeric_columns df =
     map fst (filter (\<lambda>(name, s). case s of Numeric t vs \<Rightarrow> True | Object vs \<Rightarrow> False) df)"

definition target_columns :: "dataframe \<Rightarrow> string list option \<Rightarrow> string list" where
  "target_columns df columns = (case columns of None \<Rightarrow> numeric_columns df | Some cs \<Rightarrow> cs)"

text \<open>\<^verbatim>\<open>df[column].dtype not in [np.int64, np.float64, np.int32, np.float32]\<close>\<close>

definition accepted_dtype :: "dtype \<Rightarrow> bool" where
  "accepted_dtype t \<longleftrightarrow> t = Int64 \<or> t = Float64 \<or> t = Int32 \<or> t = Float32"

text \<open>
  A column that the loop processes, with its dtype and its values: the column is in the frame
  and has one of the four accepted dtypes.
\<close>

definition processed_column :: "dataframe \<Rightarrow> string \<Rightarrow> (dtype \<times> fl list) option" where
  "processed_column df column =
     (case map_of df column of
        Some (Numeric t vs) \<Rightarrow> if accepted_dtype t then Some (t, vs) else None
      | _ \<Rightarrow> None)"

definition processed_values :: "dataframe \<Rightarrow> string \<Rightarrow> fl list option" where
  "processed_values df column = map_option snd (processed_column df column)"

text \<open>
  \<^verbatim>\<open>if column in bounds: lower, upper = bounds[column]
  else: lower, upper = df[column].min(), df[column].max()\<close>
\<close>

definition resolve_bounds :: "(string \<rightharpoonup> real \<times> real) \<Rightarrow> string \<Rightarrow> fl list \<Rightarrow> fl \<times> fl" where
  "resolve_bounds bounds column vs =
     (case bounds column of
        Some (lower, upper) \<Rightarrow> (Some lower, Some upper)
      | None \<Rightarrow> (series_min vs, series_max vs))"

text \<open>The type of the bounds so resolved, for a column with the dtype \<open>t\<close>.\<close>

definition bounds_dtype :: "(string \<rightharpoonup> real \<times> real) \<Rightarrow> string \<Rightarrow> dtype \<Rightarrow> dtype option" where
  "bounds_dtype bounds column t = (case bounds column of Some b \<Rightarrow> None | None \<Rightarrow> Some t)"

text \<open>The entry of \<^verbatim>\<open>noise_statistics\<close> for one column.\<close>

definition column_statistic :: "fl list \<Rightarrow> fl list \<Rightarrow> real \<Rightarrow> fl \<times> fl \<Rightarrow> noise_statistic" where
  "column_statistic vs noisy_values eps_column bnds =
     (let orig = series_mean vs;
          noisy = array_mean noisy_values;
          magnitude = map_option abs (fl_sub noisy orig)
      in \<lparr>original_mean = orig,
          noisy_mean = noisy,
          noise_magnitude = magnitude,
          relative_error =
            (case orig of
               None \<Rightarrow> None
             | Some m \<Rightarrow> if m \<noteq> 0 then map_option (\<lambda>x. x / \<bar>m\<bar>) magnitude else Some 0),
          epsilon_used = eps_column,
          stat_bounds = bnds\<rparr>)"

text \<open>
  The state of the loop \<^verbatim>\<open>for column in columns\<close>: the copy \<^verbatim>\<open>df_dp\<close>, the lists
  \<^verbatim>\<open>columns_processed\<close> and \<^verbatim>\<open>noise_statistics\<close> of the report, and the generator. The loop
  reads the original frame \<^verbatim>\<open>df\<close> and writes the copy. An exception leaves the loop.
\<close>

type_synonym 'g loop_state = "dataframe \<times> string list \<times> (string \<times> noise_statistic) list \<times> 'g"

fun noise_loop ::
  "'g diffprivlib \<Rightarrow> DifferentialPrivacy \<Rightarrow> dataframe \<Rightarrow> string \<Rightarrow> (string \<rightharpoonup> real \<times> real)
     \<Rightarrow> real \<Rightarrow> string list \<Rightarrow> 'g loop_state \<Rightarrow> error + 'g loop_state" where
  "noise_loop lib self df mechanism_name bounds eps_column [] st = Inr st"
| "noise_loop lib self df mechanism_name bounds eps_column (column # rest) (df_dp, processed, stats, g) =
     (case processed_column df column of
        None \<Rightarrow> noise_loop lib self df mechanism_name bounds eps_column rest (df_dp, processed, stats, g)
      | Some (t, vs) \<Rightarrow>
          (let (lower, upper) = resolve_bounds bounds column vs in
           case add_noise_to_column lib self g vs mechanism_name eps_column
                  (bounds_dtype bounds column t) lower upper of
             Inl e \<Rightarrow> Inl e
           | Inr (noisy_values, g') \<Rightarrow>
               noise_loop lib self df mechanism_name bounds eps_column rest
                 (assign_column df_dp column (Numeric Float64 noisy_values),
                  processed @ [column],
                  AList.update column
                    (column_statistic vs noisy_values eps_column (lower, upper)) stats,
                  g')))"

text \<open>
  \<^verbatim>\<open>apply_noise_to_dataframe\<close>. The result is the noised frame, the report, the instance with its
  budget counter increased, and the generator; an exception leaves the instance as it was.
\<close>

definition apply_noise_to_dataframe ::
  "'g diffprivlib \<Rightarrow> DifferentialPrivacy \<Rightarrow> 'g \<Rightarrow> dataframe \<Rightarrow> string \<Rightarrow> string list option
     \<Rightarrow> (string \<rightharpoonup> real \<times> real) option
     \<Rightarrow> error + (dataframe \<times> dp_report \<times> DifferentialPrivacy \<times> 'g)" where
  "apply_noise_to_dataframe lib self g df mechanism_name columns bounds =
     (let cols = target_columns df columns;
          bnds = (case bounds of None \<Rightarrow> Map.empty | Some b \<Rightarrow> b);
          epsilon_per_column =
            (if cols \<noteq> [] then epsilon self / real (length cols) else epsilon self)
      in case noise_loop lib self df mechanism_name bnds epsilon_per_column cols (df, [], [], g) of
           Inl e \<Rightarrow> Inl e
         | Inr (df_dp, processed, stats, g') \<Rightarrow>
             Inr (df_dp,
                  \<lparr>rep_epsilon = epsilon self,
                   rep_delta = delta self,
                   mechanism = mechanism_name,
                   privacy_level = get_privacy_level self,
                   columns_processed = processed,
                   noise_statistics = stats,
                   rep_privacy_budget_spent = epsilon self\<rparr>,
                  self\<lparr>privacy_budget_spent := privacy_budget_spent self + epsilon self\<rparr>,
                  g'))"

subsection \<open>Sequences of calls\<close>

text \<open>
  The arguments of one call of \<^verbatim>\<open>apply_noise_to_dataframe\<close>, and a sequence of calls on one
  instance, each call starting from the instance and the generator the previous one left. An
  exception ends the sequence.
\<close>

record call =
  call_df :: dataframe
  call_mechanism :: string
  call_columns :: "string list option"
  call_bounds :: "(string \<rightharpoonup> real \<times> real) option"

fun apply_calls ::
  "'g diffprivlib \<Rightarrow> DifferentialPrivacy \<Rightarrow> 'g \<Rightarrow> call list \<Rightarrow> error + (DifferentialPrivacy \<times> 'g)" where
  "apply_calls lib self g [] = Inr (self, g)"
| "apply_calls lib self g (c # cs) =
     (case apply_noise_to_dataframe lib self g (call_df c) (call_mechanism c) (call_columns c)
             (call_bounds c) of
        Inl e \<Rightarrow> Inl e
      | Inr (df_dp, report, self', g') \<Rightarrow> apply_calls lib self' g' cs)"

subsection \<open>A deterministic library\<close>

text \<open>
  A library to run the pipeline on concrete inputs. The generator is a tape of draws from the
  standard distribution (an exhausted tape draws 0). The constructors reject a negative
  sensitivity and a negative epsilon, as the constructors of diffprivlib do, and accept a zero
  sensitivity; a draw \<open>z\<close> turns a value \<open>x\<close> into \<open>x + sensitivity / epsilon * z\<close>, and NaN stays
  NaN.
\<close>

fun tape_sensitivity :: "mechanism \<Rightarrow> fl" where
  "tape_sensitivity (Laplace eps s) = s"
| "tape_sensitivity (Gaussian eps d s) = s"

fun tape_epsilon :: "mechanism \<Rightarrow> real" where
  "tape_epsilon (Laplace eps s) = eps"
| "tape_epsilon (Gaussian eps d s) = eps"

definition tape_construct :: "mechanism \<Rightarrow> error option" where
  "tape_construct mech =
     (if tape_epsilon mech < 0 then Some (ValueError ''Epsilon must be non-negative'')
      else case tape_sensitivity mech of
             Some s \<Rightarrow> if s < 0 then Some (ValueError ''Sensitivity must be non-negative'') else None
           | None \<Rightarrow> None)"

definition tape_randomise :: "mechanism \<Rightarrow> real list \<Rightarrow> fl \<Rightarrow> error + (fl \<times> real list)" where
  "tape_randomise mech tape val =
     (let z = (case tape of [] \<Rightarrow> 0 | d # _ \<Rightarrow> d);
          scale = map_option (\<lambda>s. s / tape_epsilon mech) (tape_sensitivity mech)
      in Inr (case (val, scale) of (Some x, Some b) \<Rightarrow> Some (x + b * z) | _ \<Rightarrow> None, tl tape))"

definition tape_lib :: "real list diffprivlib" where
  "tape_lib = \<lparr>construct = tape_construct, randomise = tape_randomise\<rparr>"

section \<open>The k-anonymity endpoint\<close>

text \<open>
  \<^verbatim>\<open>check_k_anonymity\<close> of \<^verbatim>\<open>api/dp.py\<close>. The upload directory is a map from file names to
  the frames \<^verbatim>\<open>pd.read_csv\<close> yields. The detail of an \<^verbatim>\<open>HTTPException\<close> is a formatted message;
  it is represented by a constructor that carries what the message interpolates: the list
  \<^verbatim>\<open>missing_columns\<close>, or the caught exception \<^verbatim>\<open>e\<close> of \<^verbatim>\<open>str(e)\<close>. The whole body is inside
  \<^verbatim>\<open>try: ... except Exception as e: raise HTTPException(500, ...)\<close>, and \<^verbatim>\<open>HTTPException\<close> is
  an \<^verbatim>\<open>Exception\<close>, so the handler also catches the 404 and the 400 raised in the body.
\<close>

datatype exn = HTTPException nat detail | Raised error
  and detail = FileNotFound | ColumnsNotFound "string list" | KAnonymityFailed exn

record KAnonymityRequest =
  filename :: string
  quasi_identifiers :: "string list"
  k :: int

definition check_k_anonymity_body ::
  "(string \<rightharpoonup> dataframe) \<Rightarrow> KAnonymityRequest \<Rightarrow> exn + (string \<times> k_anonymity_report)" where
  "check_k_anonymity_body uploads request =
     (case uploads (filename request) of
        None \<Rightarrow> Inl (HTTPException 404 FileNotFound)
      | Some df \<Rightarrow>
          (let missing_columns =
                 filter (\<lambda>col. col \<notin> set (df_columns df)) (quasi_identifiers request)
           in if missing_columns \<noteq> [] then Inl (HTTPException 400 (ColumnsNotFound missing_columns))
              else case fst (k_anonymity_check (init 1 (1 / 100000)) df
                               (quasi_identifiers request) (k request)) of
                     Inl e \<Rightarrow> Inl (Raised e)
                   | Inr report \<Rightarrow> Inr (filename request, report)))"

definition check_k_anonymity ::
  "(string \<rightharpoonup> dataframe) \<Rightarrow> KAnonymityRequest \<Rightarrow> exn + (string \<times> k_anonymity_report)" where
  "check_k_anonymity uploads request =
     (case check_k_anonymity_body uploads request of
        Inl e \<Rightarrow> Inl (HTTPException 500 (KAnonymityFailed e))
      | Inr response \<Rightarrow> Inr response)"

section \<open>The invariant of the noise loop\<close>

text \<open>
  What the loop establishes for a column \<open>c\<close> that it has processed: \<open>c\<close> is a column of the
  original frame with an accepted dtype and values \<open>vs\<close>; the statistics record the bounds
  resolved for \<open>c\<close>; and the column \<open>c\<close> of the copy is a float array, as long as \<open>vs\<close>, of
  values clipped to these bounds.
\<close>

definition clipped_column ::
  "dataframe \<Rightarrow> (string \<rightharpoonup> real \<times> real) \<Rightarrow> dataframe \<Rightarrow> (string \<times> noise_statistic) list
     \<Rightarrow> string \<Rightarrow> bool" where
  "clipped_column df bnds df_dp stats c \<longleftrightarrow>
     (\<exists>vs raw stat.
        processed_values df c = Some vs \<and>
        length raw = length vs \<and>
        map_of stats c = Some stat \<and>
        stat_bounds stat = resolve_bounds bnds c vs \<and>
        map_of df_dp c =
          Some (Numeric Float64
                  (map (np_clip (fst (resolve_bounds bnds c vs)) (snd (resolve_bounds bnds c vs))) raw)))"

section \<open>Example data\<close>

text \<open>Frames, a tape of draws and calls on which the theorems below are run.\<close>

definition df_people :: dataframe where
  "df_people =
     [(''zip'', Object [Some ''34000'', Some ''06000'']),
      (''age'', Numeric Int64 [Some 30, Some 41])]"

definition df_unique :: dataframe where
  "df_unique =
     [(''zip'', Object [Some ''34000'', Some ''06000'', Some ''35000'']),
      (''age'', Numeric Int64 [Some 30, Some 41, Some 30]),
      (''name'', Object [Some ''a'', None, Some ''c''])]"

definition df_ages :: dataframe where
  "df_ages =
     [(''age'', Numeric Int64 [Some 10, Some 20, Some 30, Some 40, Some 50]),
      (''name'', Object [Some ''a'', Some ''b'', Some ''c'', Some ''d'', Some ''e''])]"

definition tape :: "real list" where
  "tape = [1/10, -2, 3, 0, -1/20]"

text \<open>
  The result of the Laplace mechanism on the column \<open>age\<close> of \<open>df_ages\<close> with \<open>epsilon = 1\<close>,
  the draws of \<open>tape\<close> and the bounds \<open>(0, 100)\<close>: the raw values are 20, -180, 330, 40 and 45.
\<close>

definition ages_noised :: dataframe where
  "ages_noised =
     [(''age'', Numeric Float64 [Some 20, Some 0, Some 100, Some 40, Some 45]),
      (''name'', Object [Some ''a'', Some ''b'', Some ''c'', Some ''d'', Some ''e''])]"

definition ages_report :: dp_report where
  "ages_report =
     \<lparr>rep_epsilon = 1, rep_delta = 1/100000, mechanism = ''laplace'',
      privacy_level = ''medium'', columns_processed = [''age''],
      noise_statistics =
        [(''age'', \<lparr>original_mean = Some 30, noisy_mean = Some 41,
                    noise_magnitude = Some 11, relative_error = Some (11/30),
                    epsilon_used = 1, stat_bounds = (Some 0, Some 100)\<rparr>)],
      rep_privacy_budget_spent = 1\<rparr>"



definition call_ages :: call where
  "call_ages = \<lparr>call_df = df_ages, call_mechanism = ''laplace'', call_columns = Some [''age''],
                 call_bounds = Some [''age'' \<mapsto> (0, 100)]\<rparr>"

section \<open>Properties of the privacy levels\<close>

lemma first_level_inside:
  "1/10 \<le> eps \<Longrightarrow> eps < 10 \<Longrightarrow> first_level eps privacy_levels = get_privacy_level_for_epsilon eps"
  by (simp add: privacy_levels_def get_privacy_level_for_epsilon_def)

lemma first_level_outside:
  "eps < 1/10 \<or> 10 \<le> eps \<Longrightarrow> first_level eps privacy_levels = ''custom''"
  by (auto simp add: privacy_levels_def)

lemma for_epsilon_in_buckets: "get_privacy_level_for_epsilon eps \<in> set buckets"
  by (simp add: buckets_def privacy_levels_def get_privacy_level_for_epsilon_def)

text \<open>
  Claim C9. The two functions that map an epsilon to a privacy level agree when
  \<open>0.1 \<le> epsilon < 10\<close>, and the common value is one of the five buckets. Outside that range
  they differ: \<open>get_privacy_level\<close> answers \<open>custom\<close>, which is none of the five buckets, while
  \<open>get_privacy_level_for_epsilon\<close> answers \<open>very_high\<close> below 0.1 and \<open>very_low\<close> from 10 on.
\<close>

theorem privacy_level_functions_agree_inside_diverge_outside:
  "(1/10 \<le> epsilon self \<and> epsilon self < 10 \<longrightarrow>
      get_privacy_level self = get_privacy_level_for_epsilon (epsilon self) \<and>
      get_privacy_level self \<in> set buckets)
   \<and> (epsilon self < 1/10 \<longrightarrow>
      get_privacy_level self = ''custom'' \<and>
      get_privacy_level_for_epsilon (epsilon self) = ''very_high'')
   \<and> (10 \<le> epsilon self \<longrightarrow>
      get_privacy_level self = ''custom'' \<and>
      get_privacy_level_for_epsilon (epsilon self) = ''very_low'')
   \<and> ''custom'' \<notin> set buckets
   \<and> set buckets = {''very_high'', ''high'', ''medium'', ''low'', ''very_low''}"
proof -
  have inside: "1/10 \<le> epsilon self \<and> epsilon self < 10 \<longrightarrow>
      get_privacy_level self = get_privacy_level_for_epsilon (epsilon self) \<and>
      get_privacy_level self \<in> set buckets"
    using first_level_inside [of "epsilon self"] for_epsilon_in_buckets [of "epsilon self"]
    by (simp add: get_privacy_level_def)
  have below: "epsilon self < 1/10 \<longrightarrow>
      get_privacy_level self = ''custom'' \<and>
      get_privacy_level_for_epsilon (epsilon self) = ''very_high''"
    using first_level_outside [of "epsilon self"]
    by (simp add: get_privacy_level_def get_privacy_level_for_epsilon_def)
  have above: "10 \<le> epsilon self \<longrightarrow>
      get_privacy_level self = ''custom'' \<and>
      get_privacy_level_for_epsilon (epsilon self) = ''very_low''"
    using first_level_outside [of "epsilon self"]
    by (simp add: get_privacy_level_def get_privacy_level_for_epsilon_def)
  have custom: "''custom'' \<notin> set buckets"
    by (simp add: buckets_def privacy_levels_def)
  have five: "set buckets = {''very_high'', ''high'', ''medium'', ''low'', ''very_low''}"
    by (simp add: buckets_def privacy_levels_def)
  from inside below above custom five show ?thesis by blast
qed

text \<open>The three ranges at \<open>epsilon = 3\<close>, \<open>epsilon = 0.05\<close> and \<open>epsilon = 10\<close>.\<close>

theorem privacy_level_functions_witness:
  "get_privacy_level (init 3 (1/100000)) = ''low''
   \<and> get_privacy_level_for_epsilon 3 = ''low''
   \<and> get_privacy_level (init (1/20) (1/100000)) = ''custom''
   \<and> get_privacy_level_for_epsilon (1/20) = ''very_high''
   \<and> get_privacy_level (init 10 (1/100000)) = ''custom''
   \<and> get_privacy_level_for_epsilon 10 = ''very_low''"
  using privacy_level_functions_agree_inside_diverge_outside [of "init 3 (1/100000)"]
        privacy_level_functions_agree_inside_diverge_outside [of "init (1/20) (1/100000)"]
        privacy_level_functions_agree_inside_diverge_outside [of "init 10 (1/100000)"]
  by (simp add: init_def get_privacy_level_for_epsilon_def)

section \<open>Properties of the composition query\<close>

lemma advanced_epsilon_defined:
  assumes "0 < d" "d < 1" "0 \<le> n"
  shows "advanced_epsilon eps d n =
           Some (sqrt (2 * real_of_int n * ln (1 / d)) * eps + real_of_int n * eps * (exp eps - 1))"
proof -
  from assms have "1 < 1 / d" by simp
  then have l: "0 < ln (1 / d)" by (simp only: ln_gt_zero)
  from assms l have "0 \<le> 2 * real_of_int n * ln (1 / d)" by simp
  with assms show ?thesis
    by (simp add: advanced_epsilon_def np_log_def np_sqrt_def del: ln_divide_pos)
qed

text \<open>
  Claim C4. For every epsilon, every delta with \<open>0 < delta < 1\<close> and every number of queries
  \<open>n \<ge> 1\<close>, the composition query returns a report in which \<open>sequential_composition\<close> is
  \<open>epsilon * n\<close> and \<open>advanced_composition\<close> is
  \<open>sqrt (2 * n * ln (1 / delta)) * epsilon + n * epsilon * (exp epsilon - 1)\<close>.
\<close>

theorem composition_numbers:
  assumes "0 < delta self" and "delta self < 1" and "1 \<le> n"
  shows "\<exists>report. fst (calculate_privacy_loss self n) = Inr report
           \<and> sequential_composition report = epsilon self * real_of_int n
           \<and> advanced_composition report =
               Some (sqrt (2 * real_of_int n * ln (1 / delta self)) * epsilon self
                     + real_of_int n * epsilon self * (exp (epsilon self) - 1))"
  using assms advanced_epsilon_defined [of "delta self" n "epsilon self"]
  by (simp add: calculate_privacy_loss_def)

text \<open>Three queries at \<open>epsilon = 2\<close> and the default \<open>delta = 1e-5\<close>.\<close>

theorem composition_numbers_witness:
  "\<exists>report. fst (calculate_privacy_loss (init 2 (1/100000)) 3) = Inr report
           \<and> sequential_composition report = 6
           \<and> advanced_composition report =
               Some (sqrt (6 * ln 100000) * 2 + 6 * (exp 2 - 1))"
  using composition_numbers [of "init 2 (1/100000)" 3]
  by (simp add: init_def)

section \<open>Properties of the k-anonymity check\<close>

lemma groupby_size_ok:
  "keys \<noteq> [] \<Longrightarrow> set keys \<subseteq> set (df_columns df) \<Longrightarrow>
     groupby_size df keys = Inr (group_sizes (row_keys df keys))"
proof -
  assume a: "keys \<noteq> []" "set keys \<subseteq> set (df_columns df)"
  then have f: "filter (\<lambda>key. key \<notin> set (df_columns df)) keys = []"
    by (auto simp: filter_empty_conv)
  from a have "list_all (\<lambda>key. key \<in> set (df_columns df)) keys"
    by (auto simp: list_all_iff)
  with a f show ?thesis by (simp add: groupby_size_def)
qed

lemma groupby_size_missing:
  assumes "\<not> set keys \<subseteq> set (df_columns df)" and "length keys \<noteq> len_df df"
  shows "groupby_size df keys =
           Inl (KeyError (hd (filter (\<lambda>key. key \<notin> set (df_columns df)) keys)))"
proof -
  from assms(1) obtain m ms where f: "filter (\<lambda>key. key \<notin> set (df_columns df)) keys = m # ms"
    by (cases "filter (\<lambda>key. key \<notin> set (df_columns df)) keys") (auto simp: filter_empty_conv)
  with assms(2) show ?thesis by (simp add: groupby_size_def)
qed

lemma groupby_size_labels:
  assumes "\<not> set keys \<subseteq> set (df_columns df)" and "length keys = len_df df"
  shows "groupby_size df keys = Inr (group_sizes (map (\<lambda>label. [Str label]) keys))"
proof -
  from assms(1) have "\<not> list_all (\<lambda>key. key \<in> set (df_columns df)) keys"
    by (auto simp: list_all_iff)
  with assms(2) show ?thesis by (simp add: groupby_size_def)
qed

lemma row_keys_empty: "len_df df = 0 \<Longrightarrow> row_keys df keys = []"
  by (simp add: row_keys_def)

lemma sizes_group_sizes: "map snd (group_sizes ks) = map (count_list ks) (remdups ks)"
  by (simp add: group_sizes_def comp_def)

lemma filter_sizes:
  "filter P (map (count_list ks) (remdups ks)) =
     map (count_list ks) (filter (\<lambda>key. P (count_list ks key)) (remdups ks))"
  by (simp add: filter_map comp_def)

lemma vulnerable_sum:
  "sum_list (filter P (map (count_list ks) (remdups ks))) =
     (\<Sum>key \<in> {key \<in> set ks. P (count_list ks key)}. count_list ks key)"
proof -
  have d: "distinct (filter (\<lambda>key. P (count_list ks key)) (remdups ks))" by simp
  have s: "set (filter (\<lambda>key. P (count_list ks key)) (remdups ks)) =
             {key \<in> set ks. P (count_list ks key)}" by auto
  show ?thesis
    unfolding filter_sizes
    using sum_list_distinct_conv_sum_set [OF d, of "count_list ks"] s by simp
qed

lemma vulnerable_none:
  "length (filter P (map (count_list ks) (remdups ks))) = 0 \<longleftrightarrow>
     (\<forall>key \<in> set ks. \<not> P (count_list ks key))"
  by (auto simp: filter_empty_conv)

lemma count_list_distinct: "distinct ks \<Longrightarrow> key \<in> set ks \<Longrightarrow> count_list ks key = 1"
  by (induction ks) auto

lemma unique_sum:
  assumes "distinct ks" and "\<And>n. n = 1 \<Longrightarrow> P n"
  shows "(\<Sum>key \<in> {key \<in> set ks. P (count_list ks key)}. count_list ks key) = length ks"
proof -
  from assms have e: "{key \<in> set ks. P (count_list ks key)} = set ks"
    by (auto simp: count_list_distinct)
  have "(\<Sum>key \<in> set ks. count_list ks key) = (\<Sum>key \<in> set ks. 1)"
    using assms(1) by (intro sum.cong) (auto simp: count_list_distinct)
  also have "\<dots> = card (set ks)" by simp
  also have "\<dots> = length ks" using assms(1) by (simp add: distinct_card)
  finally show ?thesis using e by simp
qed

lemma upt3: "[0..<3] = [0, 1, 2]"
  by (simp add: upt_rec)

text \<open>
  Claim C7, as amended. When a name in the list of quasi-identifiers is not a column of the
  dataset, the k-anonymity endpoint fails and the failure lists the missing names; nothing is
  skipped: it raises the 400 exception whose detail holds exactly the names that are not
  columns, before the service method is called (its own handler then wraps it into the 500
  exception it raises for every failure). The service method itself makes no check. Called
  with such a list it fails with the \<open>KeyError\<close> of pandas for the first missing name, unless
  the list has as many names as the dataset has rows: then pandas takes the names as the
  group labels of the rows, and the method returns a report.
\<close>

theorem missing_quasi_identifiers_rejected:
  assumes "uploads (filename request) = Some df"
      and "\<not> set (quasi_identifiers request) \<subseteq> set (df_columns df)"
  shows "\<exists>missing. check_k_anonymity uploads request =
             Inl (HTTPException 500 (KAnonymityFailed (HTTPException 400 (ColumnsNotFound missing))))
           \<and> missing = filter (\<lambda>col. col \<notin> set (df_columns df)) (quasi_identifiers request)
           \<and> missing \<noteq> []
           \<and> set missing = set (quasi_identifiers request) - set (df_columns df)
           \<and> (length (quasi_identifiers request) \<noteq> len_df df \<longrightarrow>
                fst (k_anonymity_check self df (quasi_identifiers request) kk)
                  = Inl (KeyError (hd missing)))
           \<and> (length (quasi_identifiers request) = len_df df \<longrightarrow>
                groupby_size df (quasi_identifiers request)
                  = Inr (group_sizes (map (\<lambda>label. [Str label]) (quasi_identifiers request)))
                \<and> (\<exists>report. fst (k_anonymity_check self df (quasi_identifiers request) kk)
                               = Inr report
                      \<and> total_records report = len_df df))"
proof -
  let ?qi = "quasi_identifiers request"
  let ?missing = "filter (\<lambda>col. col \<notin> set (df_columns df)) ?qi"
  from assms(2) have ne: "?missing \<noteq> []" by (auto simp: filter_empty_conv)
  have s: "set ?missing = set ?qi - set (df_columns df)" by auto
  from assms(1) ne have api: "check_k_anonymity uploads request =
      Inl (HTTPException 500 (KAnonymityFailed (HTTPException 400 (ColumnsNotFound ?missing))))"
    by (simp add: check_k_anonymity_def check_k_anonymity_body_def Let_def)
  have raises: "fst (k_anonymity_check self df ?qi kk) = Inl (KeyError (hd ?missing))"
    if "length ?qi \<noteq> len_df df"
    using groupby_size_missing [OF assms(2) that] by (simp add: k_anonymity_check_def)
  have labels: "groupby_size df ?qi = Inr (group_sizes (map (\<lambda>label. [Str label]) ?qi))
      \<and> (\<exists>report. fst (k_anonymity_check self df ?qi kk) = Inr report
            \<and> total_records report = len_df df)"
    if "length ?qi = len_df df"
    using groupby_size_labels [OF assms(2) that] by (simp add: k_anonymity_check_def Let_def)
  from api ne s raises labels show ?thesis by blast
qed

text \<open>
  The service method on a file of two rows with the columns \<open>zip\<close> and \<open>age\<close>, called with
  the two names \<open>zip\<close> and \<open>city\<close>: it returns a report, on the two groups \<open>zip\<close> and \<open>city\<close>.
\<close>

theorem missing_quasi_identifiers_counterexample:
  "fst (k_anonymity_check (init 1 (1/100000)) df_people [''zip'', ''city''] 5)
     = Inr \<lparr>k_value = 5, total_records = 2, vulnerable_records = 2,
            vulnerable_percentage = Some 100, is_k_anonymous = False,
            smallest_group_size = 1, average_group_size = 1,
            ka_recommendation = HighRisk\<rparr>"
  by (simp add: k_anonymity_check_def groupby_size_def group_sizes_def df_people_def
      df_columns_def np_divide_def get_k_anonymity_recommendation_def)

text \<open>
  Two requests on that file: one names four columns, two of them missing, the other names
  \<open>zip\<close> and \<open>city\<close>.
\<close>

theorem missing_quasi_identifiers_witness:
  "check_k_anonymity [''people.csv'' \<mapsto> df_people]
       \<lparr>filename = ''people.csv'', quasi_identifiers = [''zip'', ''city'', ''age'', ''job''], k = 5\<rparr>
     = Inl (HTTPException 500
             (KAnonymityFailed (HTTPException 400 (ColumnsNotFound [''city'', ''job'']))))
   \<and> fst (k_anonymity_check (init 1 (1/100000)) df_people [''zip'', ''city'', ''age'', ''job''] 5)
     = Inl (KeyError ''city'')
   \<and> check_k_anonymity [''people.csv'' \<mapsto> df_people]
       \<lparr>filename = ''people.csv'', quasi_identifiers = [''zip'', ''city''], k = 5\<rparr>
     = Inl (HTTPException 500
             (KAnonymityFailed (HTTPException 400 (ColumnsNotFound [''city'']))))
   \<and> (\<exists>report. fst (k_anonymity_check (init 1 (1/100000)) df_people [''zip'', ''city''] 5)
                  = Inr report
         \<and> total_records report = 2)"
proof -
  let ?uploads = "[''people.csv'' \<mapsto> df_people]"
  let ?four = "\<lparr>filename = ''people.csv'',
                 quasi_identifiers = [''zip'', ''city'', ''age'', ''job''], k = 5\<rparr>"
  let ?two = "\<lparr>filename = ''people.csv'', quasi_identifiers = [''zip'', ''city''], k = 5\<rparr>"
  have cols: "df_columns df_people = [''zip'', ''age'']" "len_df df_people = 2"
    by (simp_all add: df_people_def df_columns_def)
  have up: "?uploads (filename ?four) = Some df_people" "?uploads (filename ?two) = Some df_people"
    by simp_all
  have m4: "\<not> set (quasi_identifiers ?four) \<subseteq> set (df_columns df_people)"
    by (simp add: cols)
  have m2: "\<not> set (quasi_identifiers ?two) \<subseteq> set (df_columns df_people)"
    by (simp add: cols)
  from missing_quasi_identifiers_rejected [of ?uploads ?four df_people "init 1 (1/100000)" 5]
       up(1) m4
  have four: "check_k_anonymity ?uploads ?four
       = Inl (HTTPException 500
               (KAnonymityFailed (HTTPException 400 (ColumnsNotFound [''city'', ''job'']))))
     \<and> fst (k_anonymity_check (init 1 (1/100000)) df_people [''zip'', ''city'', ''age'', ''job''] 5)
       = Inl (KeyError ''city'')"
    by (simp add: cols)
  from missing_quasi_identifiers_rejected [of ?uploads ?two df_people "init 1 (1/100000)" 5]
       up(2) m2
  have two: "check_k_anonymity ?uploads ?two
       = Inl (HTTPException 500
               (KAnonymityFailed (HTTPException 400 (ColumnsNotFound [''city'']))))
     \<and> (\<exists>report. fst (k_anonymity_check (init 1 (1/100000)) df_people [''zip'', ''city''] 5)
                    = Inr report
           \<and> total_records report = 2)"
    by (simp add: cols)
  from four two show ?thesis by blast
qed

text \<open>
  Claim C8. For a dataset (a well-formed frame) with at least one record and a non-empty list
  of quasi-identifiers that are columns, the check returns a report in which \<open>vulnerable_records\<close> is the sum of
  the sizes of the equivalence classes (of records by their tuple of quasi-identifier values)
  that have fewer than \<open>k\<close> members, \<open>vulnerable_percentage\<close> is
  \<open>vulnerable_records / total_records * 100\<close>, and \<open>is_k_anonymous\<close> holds exactly when no
  class has fewer than \<open>k\<close> members. When every record has a tuple and the tuples are pairwise
  distinct and \<open>k = 5\<close>, the percentage is 100 and the dataset is not k-anonymous.
\<close>

theorem k_anonymity_report:
  assumes "wf_dataframe df"
      and "0 < len_df df" and "qi \<noteq> []" and "set qi \<subseteq> set (df_columns df)"
  shows "\<exists>report. fst (k_anonymity_check self df qi kk) = Inr report
           \<and> total_records report = len_df df
           \<and> vulnerable_records report =
               (\<Sum>key \<in> {key \<in> set (row_keys df qi). int (count_list (row_keys df qi) key) < kk}.
                  count_list (row_keys df qi) key)
           \<and> vulnerable_percentage report =
               Some (real (vulnerable_records report) / real (total_records report) * 100)
           \<and> (is_k_anonymous report \<longleftrightarrow>
                (\<forall>key \<in> set (row_keys df qi). \<not> int (count_list (row_keys df qi) key) < kk))
           \<and> (length (row_keys df qi) = len_df df \<and> distinct (row_keys df qi) \<and> kk = 5 \<longrightarrow>
                vulnerable_percentage report = Some 100 \<and> \<not> is_k_anonymous report)"
proof -
  let ?ks = "row_keys df qi"
  let ?P = "\<lambda>n. int n < kk"
  let ?v = "sum_list (filter ?P (map (count_list ?ks) (remdups ?ks)))"
  let ?pct = "Some (real ?v / real (len_df df) * 100)"
  define report where "report =
     \<lparr>k_value = kk, total_records = len_df df, vulnerable_records = ?v,
      vulnerable_percentage = ?pct,
      is_k_anonymous = (length (filter ?P (map (count_list ?ks) (remdups ?ks))) = 0),
      smallest_group_size =
        (if length (group_sizes ?ks) > 0 then Min (set (map (count_list ?ks) (remdups ?ks))) else 0),
      average_group_size =
        (if length (group_sizes ?ks) > 0
         then real (sum_list (map (count_list ?ks) (remdups ?ks)))
              / real (length (map (count_list ?ks) (remdups ?ks))) else 0),
      ka_recommendation = get_k_anonymity_recommendation ?pct\<rparr>"
  from assms(2,3,4) have run: "fst (k_anonymity_check self df qi kk) = Inr report"
    by (simp add: k_anonymity_check_def groupby_size_ok sizes_group_sizes np_divide_def
        Let_def report_def filter_map)
  have total: "total_records report = len_df df" by (simp add: report_def)
  have vuln: "vulnerable_records report =
      (\<Sum>key \<in> {key \<in> set ?ks. ?P (count_list ?ks key)}. count_list ?ks key)"
    using vulnerable_sum [of ?P ?ks] by (simp add: report_def)
  have pct: "vulnerable_percentage report =
      Some (real (vulnerable_records report) / real (total_records report) * 100)"
    by (simp add: report_def)
  have anon: "is_k_anonymous report \<longleftrightarrow> (\<forall>key \<in> set ?ks. \<not> ?P (count_list ?ks key))"
    using vulnerable_none [of ?P ?ks] by (simp add: report_def)
  have unique: "vulnerable_percentage report = Some 100 \<and> \<not> is_k_anonymous report"
    if u: "length ?ks = len_df df" "distinct ?ks" "kk = 5"
  proof -
    from u have "vulnerable_records report = length ?ks"
      using unique_sum [of ?ks ?P] vuln by simp
    with u assms(2) pct total have p: "vulnerable_percentage report = Some 100" by simp
    from u assms(2) obtain key where key: "key \<in> set ?ks" by (cases ?ks) auto
    with u have "?P (count_list ?ks key)" by (simp add: count_list_distinct)
    with key anon have "\<not> is_k_anonymous report" by blast
    with p show ?thesis by simp
  qed
  from run total vuln pct anon unique show ?thesis by blast
qed

text \<open>Three records with three different pairs of \<open>zip\<close> and \<open>age\<close>, and \<open>k = 5\<close>.\<close>

theorem k_anonymity_report_witness:
  "\<exists>report. fst (k_anonymity_check (init 1 (1/100000)) df_unique [''zip'', ''age''] 5) = Inr report
           \<and> total_records report = 3
           \<and> vulnerable_percentage report = Some 100
           \<and> \<not> is_k_anonymous report"
proof -
  have rows: "row_keys df_unique [''zip'', ''age''] =
      [[Str ''34000'', Num 30], [Str ''06000'', Num 41], [Str ''35000'', Num 30]]"
    by (simp add: df_unique_def row_keys_def row_key_def upt3)
  have n: "len_df df_unique = 3" by (simp add: df_unique_def)
  have h0: "wf_dataframe df_unique"
    by (simp add: wf_dataframe_def df_unique_def df_columns_def)
  have h1: "0 < len_df df_unique" by (simp add: n)
  have h2: "[''zip'', ''age''] \<noteq> []" by simp
  have h3: "set [''zip'', ''age''] \<subseteq> set (df_columns df_unique)"
    by (simp add: df_unique_def df_columns_def)
  have u: "length (row_keys df_unique [''zip'', ''age'']) = len_df df_unique
      \<and> distinct (row_keys df_unique [''zip'', ''age'']) \<and> (5::int) = 5"
    by (simp add: rows n)
  from k_anonymity_report [OF h0 h1 h2 h3, of "init 1 (1/100000)" 5] u n
  show ?thesis by auto
qed

text \<open>
  Claim C10. For a dataset with no records the check divides by \<open>total_records = 0\<close>: the
  report it returns has no percentage (\<open>vulnerable_percentage\<close> is NaN), while
  \<open>smallest_group_size\<close> and \<open>average_group_size\<close>, which are guarded, are 0.
\<close>

theorem empty_dataset_percentage_undefined:
  assumes "len_df df = 0" and "qi \<noteq> []" and "set qi \<subseteq> set (df_columns df)"
  shows "\<exists>report. fst (k_anonymity_check self df qi kk) = Inr report
           \<and> total_records report = 0
           \<and> vulnerable_percentage report = None
           \<and> smallest_group_size report = 0
           \<and> average_group_size report = 0"
  using assms groupby_size_ok [of qi df] row_keys_empty [of df qi]
  by (simp add: k_anonymity_check_def group_sizes_def np_divide_def)

text \<open>A file with the header \<open>zip,age\<close> and no rows.\<close>

theorem empty_dataset_witness:
  "\<exists>report. fst (k_anonymity_check (init 1 (1/100000))
                  [(''zip'', Object []), (''age'', Object [])] [''zip'', ''age''] 5) = Inr report
           \<and> total_records report = 0
           \<and> vulnerable_percentage report = None
           \<and> smallest_group_size report = 0
           \<and> average_group_size report = 0"
  using empty_dataset_percentage_undefined
          [of "[(''zip'', Object []), (''age'', Object [])]" "[''zip'', ''age'']" "init 1 (1/100000)" 5]
  by (simp add: df_columns_def)

section \<open>Properties of the noise pipeline\<close>

subsection \<open>The loop keeps its invariant\<close>

lemma map_of_assign_column: "map_of (assign_column df c s) = (map_of df)(c \<mapsto> s)"
  by (induction df c s rule: assign_column.induct) (auto simp: fun_eq_iff)

lemma randomise_all_length:
  "randomise_all lib mech g vs = Inr (ys, g') \<Longrightarrow> length ys = length vs"
  by (induction vs arbitrary: g ys g') (auto split: sum.splits prod.splits)

lemma add_noise_clipped:
  assumes "add_noise_to_column lib self g vs m eps t lower upper = Inr (noisy, g')"
  shows "\<exists>raw. length raw = length vs \<and> noisy = map (np_clip lower upper) raw"
  using assms
  by (auto simp: add_noise_to_column_def Let_def dest: randomise_all_length
      split: if_splits sum.splits option.splits)

lemma clipped_column_step:
  assumes "processed_values df column = Some vs"
      and "resolve_bounds bnds column vs = (lower, upper)"
      and "length raw = length vs"
      and "c = column \<or> clipped_column df bnds df_dp stats c"
  shows "clipped_column df bnds
           (assign_column df_dp column (Numeric Float64 (map (np_clip lower upper) raw)))
           (AList.update column (column_statistic vs (map (np_clip lower upper) raw) eps (lower, upper)) stats)
           c"
proof (cases "c = column")
  case True
  with assms(1,2,3) show ?thesis
    unfolding clipped_column_def
    by (auto simp add: map_of_assign_column update_conv' column_statistic_def Let_def
        intro!: exI [of _ raw])
next
  case False
  with assms(4) show ?thesis
    unfolding clipped_column_def
    by (simp add: map_of_assign_column update_conv')
qed

lemma noise_loop_clipped:
  "noise_loop lib self df m bnds eps cols (df_dp, processed, stats, g)
      = Inr (df_dp', processed', stats', g') \<Longrightarrow>
   \<forall>c \<in> set processed. clipped_column df bnds df_dp stats c \<Longrightarrow>
   \<forall>c \<in> set processed'. clipped_column df bnds df_dp' stats' c"
proof (induction cols arbitrary: df_dp processed stats g)
  case Nil
  then show ?case by simp
next
  case (Cons column rest)
  show ?case
  proof (cases "processed_column df column")
    case None
    with Cons show ?thesis by simp
  next
    case (Some tvs)
    obtain t vs where tvs: "tvs = (t, vs)" by (cases tvs) auto
    with Some have Some: "processed_column df column = Some (t, vs)" by simp
    then have pv: "processed_values df column = Some vs" by (simp add: processed_values_def)
    obtain lower upper where b: "resolve_bounds bnds column vs = (lower, upper)"
      by (cases "resolve_bounds bnds column vs") auto
    from Cons.prems(1) Some b obtain noisy g1 where
      a: "add_noise_to_column lib self g vs m eps
           (bounds_dtype bnds column t) lower upper = Inr (noisy, g1)"
      by (auto split: sum.splits)
    from add_noise_clipped [OF a] obtain raw where
      raw: "length raw = length vs" "noisy = map (np_clip lower upper) raw" by blast
    let ?df1 = "assign_column df_dp column (Numeric Float64 noisy)"
    let ?stats1 = "AList.update column (column_statistic vs noisy eps (lower, upper)) stats"
    from Cons.prems(1) Some b a have run:
      "noise_loop lib self df m bnds eps rest (?df1, processed @ [column], ?stats1, g1)
         = Inr (df_dp', processed', stats', g')"
      by simp
    have "\<forall>c \<in> set (processed @ [column]). clipped_column df bnds ?df1 ?stats1 c"
    proof
      fix c assume "c \<in> set (processed @ [column])"
      with Cons.prems(2) have "c = column \<or> clipped_column df bnds df_dp stats c" by auto
      from clipped_column_step [OF pv b raw(1) this] raw(2)
      show "clipped_column df bnds ?df1 ?stats1 c" by simp
    qed
    from Cons.IH [OF run this] show ?thesis .
  qed
qed

lemma apply_noise_clipped:
  assumes "apply_noise_to_dataframe lib self g df m columns bounds = Inr (df_dp, report, self', g')"
      and "c \<in> set (columns_processed report)"
  shows "clipped_column df (case bounds of None \<Rightarrow> Map.empty | Some b \<Rightarrow> b) df_dp
           (noise_statistics report) c"
proof -
  let ?bnds = "case bounds of None \<Rightarrow> Map.empty | Some b \<Rightarrow> b"
  let ?cols = "target_columns df columns"
  let ?eps = "if ?cols \<noteq> [] then epsilon self / real (length ?cols) else epsilon self"
  from assms(1) obtain processed stats where
    run: "noise_loop lib self df m ?bnds ?eps ?cols (df, [], [], g) = Inr (df_dp, processed, stats, g')"
    and rep: "columns_processed report = processed" "noise_statistics report = stats"
    by (auto simp: apply_noise_to_dataframe_def Let_def split: sum.splits)
  from noise_loop_clipped [OF run] have "\<forall>c \<in> set processed. clipped_column df ?bnds df_dp stats c"
    by simp
  with assms(2) rep show ?thesis by simp
qed

subsection \<open>Clipping and bounds\<close>

lemma np_clip_Some:
  "np_clip lower upper x = Some v \<Longrightarrow>
     \<exists>lo hi. lower = Some lo \<and> upper = Some hi \<and> v \<le> hi \<and> (lo \<le> hi \<longrightarrow> lo \<le> v) \<and> (hi \<le> lo \<longrightarrow> v = hi)"
  by (auto simp: np_clip_def split: option.splits)

lemma series_min_le_max:
  "series_min vs = Some lo \<Longrightarrow> series_max vs = Some hi \<Longrightarrow> lo \<le> hi"
proof -
  assume a: "series_min vs = Some lo" "series_max vs = Some hi"
  then have ne: "present vs \<noteq> []" by (auto simp: series_min_def split: if_splits)
  then obtain x where "x \<in> set (present vs)" by (cases "present vs") auto
  then have "Min (set (present vs)) \<le> x" "x \<le> Max (set (present vs))" by simp_all
  with a ne show ?thesis by (simp add: series_min_def series_max_def)
qed

lemma resolve_bounds_ordered:
  assumes "resolve_bounds bnds c vs = (Some lo, Some hi)"
      and "\<forall>l u. bnds c = Some (l, u) \<longrightarrow> l \<le> u"
  shows "lo \<le> hi"
  using assms series_min_le_max [of vs lo hi]
  by (auto simp: resolve_bounds_def split: option.splits)

subsection \<open>Where an exception of the pipeline comes from\<close>





subsection \<open>Runs on the example data\<close>

lemmas pipeline_defs =
  apply_noise_to_dataframe_def target_columns_def numeric_columns_def processed_values_def
  accepted_dtype_def resolve_bounds_def bounds_dtype_def processed_column_def scalar_sub_def
  add_noise_to_column_def fl_sub_def np_clip_def
  column_statistic_def series_mean_def array_mean_def present_def series_min_def series_max_def
  tape_lib_def tape_construct_def tape_randomise_def get_privacy_level_def privacy_levels_def
  init_def Let_def

lemma scenario_a_run:
  "apply_noise_to_dataframe tape_lib (init 1 (1/100000)) tape df_ages ''laplace'' (Some [''age''])
       (Some [''age'' \<mapsto> (0, 100)])
     = Inr (ages_noised, ages_report,
            \<lparr>epsilon = 1, delta = 1/100000, privacy_budget_spent = 1\<rparr>, [])"
  by (simp add: pipeline_defs df_ages_def tape_def ages_noised_def ages_report_def)


lemma empty_columns_run:
  "apply_noise_to_dataframe tape_lib (init 1 (1/100000)) tape df_ages ''laplace'' (Some []) None
     = Inr (df_ages,
            \<lparr>rep_epsilon = 1, rep_delta = 1/100000, mechanism = ''laplace'',
             privacy_level = ''medium'', columns_processed = [],
             noise_statistics = [], rep_privacy_budget_spent = 1\<rparr>,
            \<lparr>epsilon = 1, delta = 1/100000, privacy_budget_spent = 1\<rparr>,
            tape)"
  by (simp add: pipeline_defs)

subsection \<open>The claims\<close>

text \<open>
  Claim C1. When \<open>apply_noise_to_dataframe\<close> returns, every processed column \<open>c\<close> of the
  returned frame holds only values within the bounds \<open>[lower, upper]\<close> resolved for \<open>c\<close> and
  recorded in the report: the values are clipped after the noise is added. Bounds taken from
  the data are ordered by construction; bounds given by the caller for \<open>c\<close> are taken to be an
  interval, \<open>lower \<le> upper\<close>. A missing cell (NaN) is not a value.
\<close>

theorem clipping_invariant:
  assumes "apply_noise_to_dataframe lib self g df m columns bounds = Inr (df_dp, report, self', g')"
      and "c \<in> set (columns_processed report)"
      and "\<forall>b l u. bounds = Some b \<and> b c = Some (l, u) \<longrightarrow> l \<le> u"
  shows "\<exists>stat noisy. map_of (noise_statistics report) c = Some stat
           \<and> map_of df_dp c = Some (Numeric Float64 noisy)
           \<and> (\<forall>v. Some v \<in> set noisy \<longrightarrow>
                 (\<exists>lower upper. stat_bounds stat = (Some lower, Some upper)
                    \<and> lower \<le> v \<and> v \<le> upper))"
proof -
  let ?bnds = "case bounds of None \<Rightarrow> Map.empty | Some b \<Rightarrow> b"
  from apply_noise_clipped [OF assms(1,2)] obtain vs raw stat where
    c: "processed_values df c = Some vs"
       "map_of (noise_statistics report) c = Some stat"
       "stat_bounds stat = resolve_bounds ?bnds c vs"
       "map_of df_dp c = Some (Numeric Float64
          (map (np_clip (fst (resolve_bounds ?bnds c vs)) (snd (resolve_bounds ?bnds c vs))) raw))"
    unfolding clipped_column_def by blast
  let ?noisy = "map (np_clip (fst (resolve_bounds ?bnds c vs)) (snd (resolve_bounds ?bnds c vs))) raw"
  from assms(3) have ord: "\<forall>l u. ?bnds c = Some (l, u) \<longrightarrow> l \<le> u"
    by (cases bounds) auto
  have "\<exists>lower upper. stat_bounds stat = (Some lower, Some upper) \<and> lower \<le> v \<and> v \<le> upper"
    if "Some v \<in> set ?noisy" for v
  proof -
    from that obtain x where
      "np_clip (fst (resolve_bounds ?bnds c vs)) (snd (resolve_bounds ?bnds c vs)) x = Some v"
      by auto
    from np_clip_Some [OF this] obtain lo hi where
      b: "resolve_bounds ?bnds c vs = (Some lo, Some hi)" and v: "v \<le> hi" "lo \<le> hi \<longrightarrow> lo \<le> v"
      by (cases "resolve_bounds ?bnds c vs") auto
    from resolve_bounds_ordered [OF b ord] v c(3) b show ?thesis by simp
  qed
  with c(2,4) show ?thesis by blast
qed

text \<open>
  Scenario A of the specification: the column \<open>age\<close> with the values 10, 20, 30, 40, 50, the
  bounds \<open>(0, 100)\<close>, \<open>epsilon = 1\<close> and the Laplace mechanism. The column \<open>age\<close> is the one
  processed column and its values are in \<open>[0, 100]\<close>.
\<close>

theorem clipping_invariant_witness:
  "apply_noise_to_dataframe tape_lib (init 1 (1/100000)) tape df_ages ''laplace'' (Some [''age''])
       (Some [''age'' \<mapsto> (0, 100)])
     = Inr (ages_noised, ages_report,
            \<lparr>epsilon = 1, delta = 1/100000, privacy_budget_spent = 1\<rparr>, [])
   \<and> columns_processed ages_report = [''age'']
   \<and> map_of ages_noised ''age''
       = Some (Numeric Float64 [Some 20, Some 0, Some 100, Some 40, Some 45])
   \<and> list_all (\<lambda>v. 0 \<le> v \<and> v \<le> 100) (present [Some 20, Some 0, Some 100, Some 40, Some 45])"
proof -
  have ord: "\<forall>b l u. Some [''age'' \<mapsto> (0::real, 100::real)] = Some b \<and> b ''age'' = Some (l, u)
               \<longrightarrow> l \<le> u"
    by auto
  have c: "''age'' \<in> set (columns_processed ages_report)"
    by (simp add: ages_report_def)
  from clipping_invariant [OF scenario_a_run c ord] scenario_a_run
  show ?thesis by (simp add: ages_report_def ages_noised_def present_def)
qed




text \<open>
  Claim C5, as amended. With an empty set of target columns (an empty list, or no list and no
  numeric column in the frame) the pipeline raises nothing: it returns the frame unchanged and
  a report with no processed column, and adds epsilon to the budget spent.
\<close>

theorem empty_columns_return:
  assumes "target_columns df columns = []"
  shows "apply_noise_to_dataframe lib self g df m columns bounds =
           Inr (df,
                \<lparr>rep_epsilon = epsilon self, rep_delta = delta self, mechanism = m,
                 privacy_level = get_privacy_level self, columns_processed = [],
                 noise_statistics = [], rep_privacy_budget_spent = epsilon self\<rparr>,
                self\<lparr>privacy_budget_spent := privacy_budget_spent self + epsilon self\<rparr>,
                g)"
  using assms by (simp add: apply_noise_to_dataframe_def)

text \<open>A call with the empty list of columns returns.\<close>

theorem empty_columns_counterexample:
  "apply_noise_to_dataframe tape_lib (init 1 (1/100000)) tape df_ages ''laplace'' (Some []) None
     = Inr (df_ages,
            \<lparr>rep_epsilon = 1, rep_delta = 1/100000, mechanism = ''laplace'',
             privacy_level = ''medium'', columns_processed = [],
             noise_statistics = [], rep_privacy_budget_spent = 1\<rparr>,
            \<lparr>epsilon = 1, delta = 1/100000, privacy_budget_spent = 1\<rparr>,
            tape)"
  by (rule empty_columns_run)

text \<open>A call with no list of columns on a frame that has no numeric column.\<close>

theorem empty_columns_witness:
  "apply_noise_to_dataframe tape_lib (init 2 (1/100000)) tape
       [(''name'', Object [Some ''a'', Some ''b''])] ''gaussian'' None None
     = Inr ([(''name'', Object [Some ''a'', Some ''b''])],
            \<lparr>rep_epsilon = 2, rep_delta = 1/100000, mechanism = ''gaussian'',
             privacy_level = ''low'', columns_processed = [],
             noise_statistics = [], rep_privacy_budget_spent = 2\<rparr>,
            \<lparr>epsilon = 2, delta = 1/100000, privacy_budget_spent = 2\<rparr>,
            tape)"
  using empty_columns_return
          [of "[(''name'', Object [Some ''a'', Some ''b''])]" None tape_lib "init 2 (1/100000)"
              tape "''gaussian''" None]
  by (simp add: target_columns_def numeric_columns_def init_def get_privacy_level_def
      privacy_levels_def)

section \<open>Properties of the budget\<close>

lemma apply_noise_spent:
  assumes "apply_noise_to_dataframe lib self g df m columns bounds = Inr (df_dp, report, self', g')"
  shows "self' = self\<lparr>privacy_budget_spent := privacy_budget_spent self + epsilon self\<rparr>"
  using assms
  by (auto simp: apply_noise_to_dataframe_def Let_def split: sum.splits)

lemma apply_calls_spent:
  "apply_calls lib self g cs = Inr (self', g') \<Longrightarrow>
     self' = self\<lparr>privacy_budget_spent := privacy_budget_spent self + (\<Sum>c\<leftarrow>cs. epsilon self)\<rparr>"
proof (induction cs arbitrary: self g)
  case Nil
  then show ?case by simp
next
  case (Cons c cs)
  from Cons.prems obtain df_dp report self1 g1 where
    one: "apply_noise_to_dataframe lib self g (call_df c) (call_mechanism c) (call_columns c)
            (call_bounds c) = Inr (df_dp, report, self1, g1)"
    and rest: "apply_calls lib self1 g1 cs = Inr (self', g')"
    by (auto split: sum.splits)
  from apply_noise_spent [OF one] have
    s1: "self1 = self\<lparr>privacy_budget_spent := privacy_budget_spent self + epsilon self\<rparr>" .
  from Cons.IH [OF rest] s1 show ?case by (simp add: add.assoc)
qed

lemma scenario_e_run:
  "apply_calls tape_lib (init 2 (1/100000)) tape [call_ages, call_ages]
     = Inr (\<lparr>epsilon = 2, delta = 1/100000, privacy_budget_spent = 4\<rparr>, [])"
  by (simp add: pipeline_defs call_ages_def df_ages_def tape_def)

text \<open>
  Claim C3. On a fresh account (\<open>spent = 0\<close>), after any sequence of calls of
  \<open>apply_noise_to_dataframe\<close> that return, the budget spent is the sum of the epsilon of each
  call; the remaining budget that the composition query reports is
  \<open>max 0 (10 - spent)\<close>, which is never negative. In particular two calls with
  \<open>epsilon = 2\<close> leave \<open>spent = 4\<close> and a remaining budget of 6. The epsilon of a call is the
  epsilon of the instance; the query needs a \<open>delta\<close> other than zero.
\<close>

theorem budget_accounting:
  assumes "apply_calls lib (init eps d) g cs = Inr (self', g')" and "d \<noteq> 0"
  shows "privacy_budget_spent self' = (\<Sum>c\<leftarrow>cs. eps)
         \<and> (\<exists>report. fst (calculate_privacy_loss self' n) = Inr report
               \<and> pl_privacy_budget_spent report = privacy_budget_spent self'
               \<and> privacy_remaining report = max 0 (10 - privacy_budget_spent self')
               \<and> 0 \<le> privacy_remaining report
               \<and> (eps = 2 \<and> length cs = 2 \<longrightarrow>
                    privacy_budget_spent self' = 4 \<and> privacy_remaining report = 6))"
proof -
  from apply_calls_spent [OF assms(1)] have
    s: "self' = (init eps d)\<lparr>privacy_budget_spent := (\<Sum>c\<leftarrow>cs. eps)\<rparr>"
    by (simp add: init_def)
  then have spent: "privacy_budget_spent self' = (\<Sum>c\<leftarrow>cs. eps)" by simp
  have two: "(\<Sum>c\<leftarrow>cs. eps) = 4" if "eps = 2" "length cs = 2"
    using that by (simp add: sum_list_triv)
  from s assms(2) two spent show ?thesis
    by (auto simp: calculate_privacy_loss_def init_def)
qed

text \<open>
  Scenario E of the specification: two calls with \<open>epsilon = 2\<close> on a fresh account.
\<close>

theorem budget_accounting_witness:
  "apply_calls tape_lib (init 2 (1/100000)) tape [call_ages, call_ages]
     = Inr (\<lparr>epsilon = 2, delta = 1/100000, privacy_budget_spent = 4\<rparr>, [])
   \<and> (\<exists>report. fst (calculate_privacy_loss
                        \<lparr>epsilon = 2, delta = 1/100000, privacy_budget_spent = 4\<rparr> 2) = Inr report
         \<and> pl_privacy_budget_spent report = 4
         \<and> privacy_remaining report = 6)"
proof -
  have d: "(1/100000 :: real) \<noteq> 0" by simp
  from budget_accounting [OF scenario_e_run d, of 2] scenario_e_run
  show ?thesis by auto
qed

text \<open>
  Claim C6. The composition query leaves the instance, and so the budget spent, as it was,
  and its two composition numbers depend on epsilon, delta and the number of queries only:
  two instances that differ in nothing but the budget spent get the same numbers. A call of
  the noise pipeline that returns does change the budget spent: it adds epsilon.
\<close>

theorem composition_query_is_pure:
  "snd (calculate_privacy_loss self n) = self
   \<and> (epsilon a = epsilon b \<and> delta a = delta b
        \<and> fst (calculate_privacy_loss a n) = Inr report_a
        \<and> fst (calculate_privacy_loss b n) = Inr report_b \<longrightarrow>
        sequential_composition report_a = sequential_composition report_b
        \<and> advanced_composition report_a = advanced_composition report_b)
   \<and> (apply_noise_to_dataframe lib self g df m columns bounds = Inr (df_dp, report, self', g') \<longrightarrow>
        privacy_budget_spent self' = privacy_budget_spent self + epsilon self)"
proof (intro conjI impI)
  show "snd (calculate_privacy_loss self n) = self"
    by (simp add: calculate_privacy_loss_def)
next
  assume "epsilon a = epsilon b \<and> delta a = delta b
        \<and> fst (calculate_privacy_loss a n) = Inr report_a
        \<and> fst (calculate_privacy_loss b n) = Inr report_b"
  then show "sequential_composition report_a = sequential_composition report_b"
    and "advanced_composition report_a = advanced_composition report_b"
    by (auto simp: calculate_privacy_loss_def split: if_splits)
next
  assume "apply_noise_to_dataframe lib self g df m columns bounds = Inr (df_dp, report, self', g')"
  from apply_noise_spent [OF this]
  show "privacy_budget_spent self' = privacy_budget_spent self + epsilon self" by simp
qed

text \<open>
  The query on a fresh instance and on one that has spent 7, and the call of Scenario A.
\<close>

theorem composition_query_witness:
  "snd (calculate_privacy_loss (init 1 (1/100000)) 3) = init 1 (1/100000)
   \<and> (\<exists>report_a report_b.
         fst (calculate_privacy_loss (init 1 (1/100000)) 3) = Inr report_a
         \<and> fst (calculate_privacy_loss
                  \<lparr>epsilon = 1, delta = 1/100000, privacy_budget_spent = 7\<rparr> 3) = Inr report_b
         \<and> sequential_composition report_a = sequential_composition report_b
         \<and> advanced_composition report_a = advanced_composition report_b
         \<and> privacy_remaining report_a = 10 \<and> privacy_remaining report_b = 3)
   \<and> privacy_budget_spent \<lparr>epsilon = 1, delta = 1/100000, privacy_budget_spent = 1\<rparr>
       = privacy_budget_spent (init 1 (1/100000)) + epsilon (init 1 (1/100000))"
proof -
  let ?a = "init 1 (1/100000)"
  let ?b = "\<lparr>epsilon = 1, delta = 1/100000, privacy_budget_spent = 7\<rparr>"
  obtain ra where ra: "fst (calculate_privacy_loss ?a 3) = Inr ra"
      and rema: "privacy_remaining ra = 10"
    by (simp add: calculate_privacy_loss_def init_def)
  obtain rb where rb: "fst (calculate_privacy_loss ?b 3) = Inr rb"
      and remb: "privacy_remaining rb = 3"
    by (simp add: calculate_privacy_loss_def)
  have e: "epsilon ?a = epsilon ?b \<and> delta ?a = delta ?b" by (simp add: init_def)
  from composition_query_is_pure
         [of ?a 3 ?a ?b ra rb tape_lib tape df_ages "''laplace''" "Some [''age'']"
             "Some [''age'' \<mapsto> (0, 100)]" ages_noised ages_report
             "\<lparr>epsilon = 1, delta = 1/100000, privacy_budget_spent = 1\<rparr>" "[]"]
       scenario_a_run ra rb e rema remb
  show ?thesis by auto
qed

end
